theory Spec2Isabelle
  imports Complex_Main
begin

section \<open>Alignment and distribution of diagrams (src/alignment.ts)\<close>

text \<open>
  The module \<^verbatim>\<open>alignment.ts\<close> aligns and distributes an array of diagrams. It uses the
  class \<^verbatim>\<open>Diagram\<close> only through \<^verbatim>\<open>get_anchor\<close>, \<^verbatim>\<open>translate\<close> and
  \<^verbatim>\<open>diagram_combine\<close>, all three imported from \<^verbatim>\<open>diagram.js\<close>, and the vectors of
  \<^verbatim>\<open>vector.js\<close>. Neither file is part of the sources at hand. The functions of
  \<^verbatim>\<open>alignment.ts\<close> therefore take the three operations as parameters, for any type
  \<open>'d\<close> of diagrams, and the one property of them that the results rest on is stated as
  \<open>translate_contract\<close>. A small concrete diagram type at the end of the definitions
  shows the contract satisfiable and serves for concrete runs.

  A JavaScript \<^verbatim>\<open>number\<close> is an IEEE 754 double: \<open>js_add\<close> and \<open>js_sub\<close> below round
  every sum and difference as the language does. An argument left out of a call is
  replaced by its default (\<^verbatim>\<open>'center'\<close>, \<^verbatim>\<open>0\<close>) before the body runs; the definitions
  below are the bodies.
\<close>

subsection \<open>JavaScript numbers\<close>

text \<open>
  The Number type of ECMAScript is the binary64 format of IEEE 754: the finite doubles,
  the two infinities and NaN. A finite double is written \<open>Num v\<close> with its value \<open>v\<close>;
  the two zeros are one value here (they are equal under \<^verbatim>\<open>==\<close>, and sums and differences
  of other numbers never depend on the sign of a zero).

  A real number is a double when it is zero, or it is below \<open>2 ^ 1024\<close> in magnitude
  and a whole multiple of the unit in the last place of its binade: \<open>ulp v\<close> is
  \<open>2 ^ (e - 52)\<close> for \<open>2 ^ e \<le> \<bar>v\<bar> < 2 ^ (e + 1)\<close>, and \<open>2 ^ (- 1074)\<close> for every
  \<open>v\<close> below \<open>2 ^ (- 1022)\<close> (the subnormal numbers). \<open>Num v\<close> for any other \<open>v\<close> is not
  a JavaScript number; \<open>is_double\<close> is the test. The literal \<^verbatim>\<open>0\<close> of the source is
  \<open>0\<close>, that is \<open>Num 0\<close>.
\<close>

datatype number = NaN | PosInf | NegInf | Num real

instantiation number :: zero
begin

definition zero_number :: number where
  "zero_number = Num 0"

instance ..

end

definition ulp :: "real \<Rightarrow> real" where
  "ulp v = 2 powr (of_int (max \<lfloor>log 2 \<bar>v\<bar>\<rfloor> (- 1022)) - 52)"

definition overflow_threshold :: real where
  "overflow_threshold = 2 ^ 1024"

definition representable :: "real \<Rightarrow> bool" where
  "representable v \<longleftrightarrow> v = 0 \<or> (\<bar>v\<bar> < overflow_threshold \<and> v / ulp v \<in> \<int>)"

definition is_double :: "number \<Rightarrow> bool" where
  "is_double a = (case a of Num v \<Rightarrow> representable v | _ \<Rightarrow> True)"

text \<open>
  Rounding to nearest, ties to the even significand (the only rounding mode of
  ECMAScript): the exact result is divided by the unit in the last place of its binade,
  the quotient is rounded to an integer, halves going to the even neighbour, and a result
  of magnitude \<open>2 ^ 1024\<close> or more overflows to an infinity.
\<close>

definition round_half_even :: "real \<Rightarrow> int" where
  "round_half_even q =
     (let f = \<lfloor>q\<rfloor>
      in if q - of_int f < 1 / 2 then f
         else if 1 / 2 < q - of_int f then f + 1
         else if even f then f else f + 1)"

definition round_double :: "real \<Rightarrow> number" where
  "round_double v =
     (if v = 0 then Num 0
      else (let r = of_int (round_half_even (v / ulp v)) * ulp v
            in if overflow_threshold \<le> r then PosInf
               else if r \<le> - overflow_threshold then NegInf
               else Num r))"

text \<open>
  The operators \<^verbatim>\<open>+\<close> and \<^verbatim>\<open>-\<close> on numbers: NaN is contagious, infinities of opposite
  signs add up to NaN, an infinity absorbs every finite number, and the sum of two finite
  numbers is their exact sum, rounded. \<^verbatim>\<open>a - b\<close> is \<^verbatim>\<open>a + (-b)\<close>.
\<close>

fun js_neg :: "number \<Rightarrow> number" where
  "js_neg NaN = NaN"
| "js_neg PosInf = NegInf"
| "js_neg NegInf = PosInf"
| "js_neg (Num a) = Num (- a)"

fun js_add :: "number \<Rightarrow> number \<Rightarrow> number" where
  "js_add NaN b = NaN"
| "js_add a NaN = NaN"
| "js_add PosInf NegInf = NaN"
| "js_add NegInf PosInf = NaN"
| "js_add PosInf b = PosInf"
| "js_add a PosInf = PosInf"
| "js_add NegInf b = NegInf"
| "js_add a NegInf = NegInf"
| "js_add (Num a) (Num b) = round_double (a + b)"

definition js_sub :: "number \<Rightarrow> number \<Rightarrow> number" where
  "js_sub a b = js_add a (js_neg b)"



subsection \<open>Vectors and anchors\<close>

text \<open>
  Modelled from the spec: \<^verbatim>\<open>Vector2\<close> and its constructor \<^verbatim>\<open>V2\<close> of
  \<^verbatim>\<open>vector.js\<close>, a pair of coordinates \<open>(x, y)\<close>, each a number, of which this
  module reads the fields \<^verbatim>\<open>.x\<close> and \<^verbatim>\<open>.y\<close>. The selectors keep these names, so
  \<open>x\<close> and \<open>y\<close> are constants from here on and never variables.
\<close>

record Vector2 =
  x :: number
  y :: number

definition V2 :: "number \<Rightarrow> number \<Rightarrow> Vector2" where
  "V2 a b = \<lparr>x = a, y = b\<rparr>"

text \<open>
  Modelled from the spec: the type \<^verbatim>\<open>Anchor\<close> of \<^verbatim>\<open>diagram.js\<close>, the fixed
  vocabulary of nine names on a 3 by 3 grid; \<open>top_left\<close> stands for the string
  \<^verbatim>\<open>"top-left"\<close>, and so on.
\<close>

datatype Anchor =
    top_left | top_center | top_right
  | center_left | center_center | center_right
  | bottom_left | bottom_center | bottom_right



subsection \<open>Errors\<close>

text \<open>
  \<^verbatim>\<open>throw new Error(msg)\<close> is the only exception this module raises; a function that can
  throw returns \<open>Inl (Error msg)\<close> for it and \<open>Inr\<close> of its result otherwise.
\<close>

datatype error = Error string

subsection \<open>Alignment\<close>

definition align_vertical ::
  "('d \<Rightarrow> Anchor \<Rightarrow> Vector2) \<Rightarrow> ('d \<Rightarrow> Vector2 \<Rightarrow> 'd) \<Rightarrow> 'd list \<Rightarrow> string \<Rightarrow> error + 'd list" where
  "align_vertical get_anchor translate diagrams alignment =
     (if length diagrams = 0 then Inr diagrams
      else if alignment = ''top'' then
        (let top_y = y (get_anchor (diagrams ! 0) top_left)
         in Inr (map (\<lambda>d. translate d (V2 0 (js_sub top_y (y (get_anchor d top_left))))) diagrams))
      else if alignment = ''center'' then
        (let center_y = y (get_anchor (diagrams ! 0) center_left)
         in Inr (map (\<lambda>d. translate d (V2 0 (js_sub center_y (y (get_anchor d center_left))))) diagrams))
      else if alignment = ''bottom'' then
        (let bottom_y = y (get_anchor (diagrams ! 0) bottom_left)
         in Inr (map (\<lambda>d. translate d (V2 0 (js_sub bottom_y (y (get_anchor d bottom_left))))) diagrams))
      else Inl (Error (''Unknown vertical alignment : '' @ alignment)))"

definition align_horizontal ::
  "('d \<Rightarrow> Anchor \<Rightarrow> Vector2) \<Rightarrow> ('d \<Rightarrow> Vector2 \<Rightarrow> 'd) \<Rightarrow> 'd list \<Rightarrow> string \<Rightarrow> error + 'd list" where
  "align_horizontal get_anchor translate diagrams alignment =
     (if length diagrams = 0 then Inr diagrams
      else if alignment = ''left'' then
        (let left_x = x (get_anchor (diagrams ! 0) top_left)
         in Inr (map (\<lambda>d. translate d (V2 (js_sub left_x (x (get_anchor d top_left))) 0)) diagrams))
      else if alignment = ''center'' then
        (let center_x = x (get_anchor (diagrams ! 0) top_center)
         in Inr (map (\<lambda>d. translate d (V2 (js_sub center_x (x (get_anchor d top_center))) 0)) diagrams))
      else if alignment = ''right'' then
        (let right_x = x (get_anchor (diagrams ! 0) top_right)
         in Inr (map (\<lambda>d. translate d (V2 (js_sub right_x (x (get_anchor d top_right))) 0)) diagrams))
      else Inl (Error (''Unknown horizontal alignment : '' @ alignment)))"

subsection \<open>Distribution\<close>

text \<open>
  The \<^verbatim>\<open>for\<close> loop of \<^verbatim>\<open>distribute_horizontal\<close>, from the index \<open>i\<close> on, with the
  array \<^verbatim>\<open>distributed_diagrams\<close> built so far. The loop is entered with \<open>i = 1\<close> and
  one diagram placed, and every round adds one to both, so \<open>1 \<le> i\<close> and
  \<open>length distributed_diagrams = i\<close> throughout: the read at \<open>i - 1\<close> is in range, as
  the read of \<open>diagrams\<close> at \<open>i\<close> is by the loop's test.
\<close>

function distribute_horizontal_loop ::
  "('d \<Rightarrow> Anchor \<Rightarrow> Vector2) \<Rightarrow> ('d \<Rightarrow> Vector2 \<Rightarrow> 'd) \<Rightarrow> 'd list \<Rightarrow> number \<Rightarrow> nat \<Rightarrow> 'd list \<Rightarrow> 'd list" where
  "distribute_horizontal_loop get_anchor translate diagrams space i distributed_diagrams =
     (if i < length diagrams then
        (let prev_diagram = distributed_diagrams ! (i - 1);
             this_diagram = diagrams ! i;
             prev_right = x (get_anchor prev_diagram top_right);
             this_left = x (get_anchor this_diagram top_left);
             dx = js_add (js_sub prev_right this_left) space
         in distribute_horizontal_loop get_anchor translate diagrams space (i + 1)
              (distributed_diagrams @ [translate this_diagram (V2 dx 0)]))
      else distributed_diagrams)"
  by pat_completeness auto
termination
  by (relation "measure (\<lambda>(get_anchor, translate, diagrams, space, i, distributed_diagrams). length diagrams - i)") auto

declare distribute_horizontal_loop.simps [simp del]

definition distribute_horizontal ::
  "('d \<Rightarrow> Anchor \<Rightarrow> Vector2) \<Rightarrow> ('d \<Rightarrow> Vector2 \<Rightarrow> 'd) \<Rightarrow> 'd list \<Rightarrow> number \<Rightarrow> 'd list" where
  "distribute_horizontal get_anchor translate diagrams space =
     (if length diagrams = 0 then diagrams
      else distribute_horizontal_loop get_anchor translate diagrams space 1 [diagrams ! 0])"

function distribute_vertical_loop ::
  "('d \<Rightarrow> Anchor \<Rightarrow> Vector2) \<Rightarrow> ('d \<Rightarrow> Vector2 \<Rightarrow> 'd) \<Rightarrow> 'd list \<Rightarrow> number \<Rightarrow> nat \<Rightarrow> 'd list \<Rightarrow> 'd list" where
  "distribute_vertical_loop get_anchor translate diagrams space i distributed_diagrams =
     (if i < length diagrams then
        (let prev_diagram = distributed_diagrams ! (i - 1);
             this_diagram = diagrams ! i;
             prev_bottom = y (get_anchor prev_diagram bottom_left);
             this_top = y (get_anchor this_diagram top_left);
             dy = js_sub (js_sub prev_bottom this_top) space
         in distribute_vertical_loop get_anchor translate diagrams space (i + 1)
              (distributed_diagrams @ [translate this_diagram (V2 0 dy)]))
      else distributed_diagrams)"
  by pat_completeness auto
termination
  by (relation "measure (\<lambda>(get_anchor, translate, diagrams, space, i, distributed_diagrams). length diagrams - i)") auto

declare distribute_vertical_loop.simps [simp del]

definition distribute_vertical ::
  "('d \<Rightarrow> Anchor \<Rightarrow> Vector2) \<Rightarrow> ('d \<Rightarrow> Vector2 \<Rightarrow> 'd) \<Rightarrow> 'd list \<Rightarrow> number \<Rightarrow> 'd list" where
  "distribute_vertical get_anchor translate diagrams space =
     (if length diagrams = 0 then diagrams
      else distribute_vertical_loop get_anchor translate diagrams space 1 [diagrams ! 0])"

subsection \<open>Alignment, then distribution\<close>

text \<open>
  The argument of the outer call is evaluated first; when it throws, the outer function is
  never entered and the exception is the result.
\<close>

definition distribute_horizontal_and_align ::
  "('d \<Rightarrow> Anchor \<Rightarrow> Vector2) \<Rightarrow> ('d \<Rightarrow> Vector2 \<Rightarrow> 'd) \<Rightarrow> 'd list \<Rightarrow> number \<Rightarrow> string \<Rightarrow> error + 'd list" where
  "distribute_horizontal_and_align get_anchor translate diagrams horizontal_space alignment =
     (case align_vertical get_anchor translate diagrams alignment of
        Inl e \<Rightarrow> Inl e
      | Inr aligned \<Rightarrow> Inr (distribute_horizontal get_anchor translate aligned horizontal_space))"

definition distribute_vertical_and_align ::
  "('d \<Rightarrow> Anchor \<Rightarrow> Vector2) \<Rightarrow> ('d \<Rightarrow> Vector2 \<Rightarrow> 'd) \<Rightarrow> 'd list \<Rightarrow> number \<Rightarrow> string \<Rightarrow> error + 'd list" where
  "distribute_vertical_and_align get_anchor translate diagrams vertical_space alignment =
     (case align_horizontal get_anchor translate diagrams alignment of
        Inl e \<Rightarrow> Inl e
      | Inr aligned \<Rightarrow> Inr (distribute_vertical get_anchor translate aligned vertical_space))"

subsection \<open>The variants that combine the result\<close>

text \<open>
  \<^verbatim>\<open>diagram_combine(...ds)\<close> spreads the array into the arguments of
  \<^verbatim>\<open>diagram_combine\<close>, which collects them again: the function is applied to the
  array as it is.
\<close>

definition align_vertical_c ::
  "('d \<Rightarrow> Anchor \<Rightarrow> Vector2) \<Rightarrow> ('d \<Rightarrow> Vector2 \<Rightarrow> 'd) \<Rightarrow> ('d list \<Rightarrow> 'd) \<Rightarrow> 'd list \<Rightarrow> string \<Rightarrow> error + 'd" where
  "align_vertical_c get_anchor translate diagram_combine diagrams alignment =
     (case align_vertical get_anchor translate diagrams alignment of
        Inl e \<Rightarrow> Inl e
      | Inr ds \<Rightarrow> Inr (diagram_combine ds))"

definition align_horizontal_c ::
  "('d \<Rightarrow> Anchor \<Rightarrow> Vector2) \<Rightarrow> ('d \<Rightarrow> Vector2 \<Rightarrow> 'd) \<Rightarrow> ('d list \<Rightarrow> 'd) \<Rightarrow> 'd list \<Rightarrow> string \<Rightarrow> error + 'd" where
  "align_horizontal_c get_anchor translate diagram_combine diagrams alignment =
     (case align_horizontal get_anchor translate diagrams alignment of
        Inl e \<Rightarrow> Inl e
      | Inr ds \<Rightarrow> Inr (diagram_combine ds))"

definition distribute_horizontal_c ::
  "('d \<Rightarrow> Anchor \<Rightarrow> Vector2) \<Rightarrow> ('d \<Rightarrow> Vector2 \<Rightarrow> 'd) \<Rightarrow> ('d list \<Rightarrow> 'd) \<Rightarrow> 'd list \<Rightarrow> number \<Rightarrow> 'd" where
  "distribute_horizontal_c get_anchor translate diagram_combine diagrams space =
     diagram_combine (distribute_horizontal get_anchor translate diagrams space)"

definition distribute_vertical_c ::
  "('d \<Rightarrow> Anchor \<Rightarrow> Vector2) \<Rightarrow> ('d \<Rightarrow> Vector2 \<Rightarrow> 'd) \<Rightarrow> ('d list \<Rightarrow> 'd) \<Rightarrow> 'd list \<Rightarrow> number \<Rightarrow> 'd" where
  "distribute_vertical_c get_anchor translate diagram_combine diagrams space =
     diagram_combine (distribute_vertical get_anchor translate diagrams space)"

definition distribute_horizontal_and_align_c ::
  "('d \<Rightarrow> Anchor \<Rightarrow> Vector2) \<Rightarrow> ('d \<Rightarrow> Vector2 \<Rightarrow> 'd) \<Rightarrow> ('d list \<Rightarrow> 'd) \<Rightarrow> 'd list \<Rightarrow> number \<Rightarrow> string \<Rightarrow> error + 'd" where
  "distribute_horizontal_and_align_c get_anchor translate diagram_combine diagrams horizontal_space alignment =
     (case distribute_horizontal_and_align get_anchor translate diagrams horizontal_space alignment of
        Inl e \<Rightarrow> Inl e
      | Inr ds \<Rightarrow> Inr (diagram_combine ds))"

definition distribute_vertical_and_align_c ::
  "('d \<Rightarrow> Anchor \<Rightarrow> Vector2) \<Rightarrow> ('d \<Rightarrow> Vector2 \<Rightarrow> 'd) \<Rightarrow> ('d list \<Rightarrow> 'd) \<Rightarrow> 'd list \<Rightarrow> number \<Rightarrow> string \<Rightarrow> error + 'd" where
  "distribute_vertical_and_align_c get_anchor translate diagram_combine diagrams vertical_space alignment =
     (case distribute_vertical_and_align get_anchor translate diagrams vertical_space alignment of
        Inl e \<Rightarrow> Inl e
      | Inr ds \<Rightarrow> Inr (diagram_combine ds))"

subsection \<open>A concrete diagram type\<close>

text \<open>
  Modelled from the spec: a stand-in for the class \<^verbatim>\<open>Diagram\<close> of \<^verbatim>\<open>diagram.js\<close>,
  as far as the specification describes it. The nine anchors of a diagram lie on a 3 by 3
  grid, three x-coordinates (left, centre, right) by three y-coordinates (top, centre,
  bottom), and a combined diagram keeps its members. \<open>rect_anchor\<close> stands for
  \<^verbatim>\<open>get_anchor\<close>, \<open>rect_translate\<close> for \<^verbatim>\<open>translate\<close> (it adds the displacement to the
  six coordinates and translates every member) and \<open>rect_combine\<close> for
  \<^verbatim>\<open>diagram_combine\<close> (the extents of the members together, the centre half-way, the
  members kept in order). The extents of a combination are taken with y growing upwards
  (the top is the larger y), the reading under which the gap that
  \<^verbatim>\<open>distribute_vertical\<close> subtracts separates two diagrams. No general result below
  depends on this type: it instantiates them.
\<close>

datatype Rect =
  Rect (x_left: number) (x_center: number) (x_right: number)
       (y_top: number) (y_center: number) (y_bottom: number) (members: "Rect list")

fun rect_anchor :: "Rect \<Rightarrow> Anchor \<Rightarrow> Vector2" where
  "rect_anchor d top_left = V2 (x_left d) (y_top d)"
| "rect_anchor d top_center = V2 (x_center d) (y_top d)"
| "rect_anchor d top_right = V2 (x_right d) (y_top d)"
| "rect_anchor d center_left = V2 (x_left d) (y_center d)"
| "rect_anchor d center_center = V2 (x_center d) (y_center d)"
| "rect_anchor d center_right = V2 (x_right d) (y_center d)"
| "rect_anchor d bottom_left = V2 (x_left d) (y_bottom d)"
| "rect_anchor d bottom_center = V2 (x_center d) (y_bottom d)"
| "rect_anchor d bottom_right = V2 (x_right d) (y_bottom d)"

fun rect_translate :: "Rect \<Rightarrow> Vector2 \<Rightarrow> Rect" where
  "rect_translate (Rect l c r t m b ms) v =
     Rect (js_add l (x v)) (js_add c (x v)) (js_add r (x v))
          (js_add t (y v)) (js_add m (y v)) (js_add b (y v))
          (map (\<lambda>d. rect_translate d v) ms)"

text \<open>\<^verbatim>\<open>Math.min\<close>, \<^verbatim>\<open>Math.max\<close> and the division by two, for the extents of a combination.\<close>

fun js_min :: "number \<Rightarrow> number \<Rightarrow> number" where
  "js_min NaN b = NaN"
| "js_min a NaN = NaN"
| "js_min NegInf b = NegInf"
| "js_min a NegInf = NegInf"
| "js_min PosInf b = b"
| "js_min a PosInf = a"
| "js_min (Num a) (Num b) = Num (min a b)"

fun js_max :: "number \<Rightarrow> number \<Rightarrow> number" where
  "js_max NaN b = NaN"
| "js_max a NaN = NaN"
| "js_max PosInf b = PosInf"
| "js_max a PosInf = PosInf"
| "js_max NegInf b = b"
| "js_max a NegInf = a"
| "js_max (Num a) (Num b) = Num (max a b)"

fun js_half :: "number \<Rightarrow> number" where
  "js_half (Num a) = round_double (a / 2)"
| "js_half a = a"

fun rect_combine :: "Rect list \<Rightarrow> Rect" where
  "rect_combine [] = Rect 0 0 0 0 0 0 []"
| "rect_combine (d # ds) =
     (let l = foldr js_min (map x_left ds) (x_left d);
          r = foldr js_max (map x_right ds) (x_right d);
          t = foldr js_max (map y_top ds) (y_top d);
          b = foldr js_min (map y_bottom ds) (y_bottom d)
      in Rect l (js_half (js_add l r)) r t (js_half (js_add t b)) b (d # ds))"

text \<open>
  Three diagrams without members, for concrete runs, and three pairs with an edge at
  \<open>2 ^ 53 = 9007199254740992\<close> or beyond, where neighbouring doubles are 2 apart.
\<close>

definition three_rects :: "Rect list" where
  "three_rects =
     [Rect (Num 0) (Num 1) (Num 2) (Num 2) (Num 1) (Num 0) [],
      Rect (Num 4) (Num 6) (Num 8) (Num 6) (Num 4) (Num 2) [],
      Rect (Num (- 4)) (Num (- 3)) (Num (- 2)) (Num 0) (Num (- 2)) (Num (- 4)) []]"




section \<open>Properties\<close>

subsection \<open>Auxiliary facts\<close>

text \<open>
  Rounding. A double is rounded to itself; the integer nearest to a quotient lies between
  any two integers that enclose the quotient; and \<open>ulp\<close> is what its description says, in
  a binade and below the smallest normal number.
\<close>

lemma ulp_pos: "0 < ulp v"
  by (simp add: ulp_def)

lemma round_half_even_int: "round_half_even (of_int n) = n"
  by (simp add: round_half_even_def)

lemma round_double_exact: "representable v \<Longrightarrow> round_double v = Num v"
proof (cases "v = 0")
  case True
  then show ?thesis
    by (simp add: round_double_def)
next
  case False
  assume "representable v"
  with False have small: "\<bar>v\<bar> < overflow_threshold" and "v / ulp v \<in> \<int>"
    by (simp_all add: representable_def)
  then obtain n where n: "v / ulp v = of_int n"
    by (auto elim: Ints_cases)
  have "of_int (round_half_even (v / ulp v)) * ulp v = v"
    using ulp_pos [of v] by (simp add: n [symmetric] round_half_even_int [of n, unfolded n [symmetric]])
  with False small show ?thesis
    by (auto simp: round_double_def Let_def)
qed

lemma floor_log2_eq:
  "0 < v \<Longrightarrow> 2 powr of_int k \<le> v \<Longrightarrow> v < 2 powr (of_int k + 1) \<Longrightarrow> \<lfloor>log 2 v\<rfloor> = k"
  by (simp add: floor_log_eq_powr_iff)

lemma round_half_even_cases:
  "round_half_even q = \<lfloor>q\<rfloor> \<or> (round_half_even q = \<lfloor>q\<rfloor> + 1 \<and> of_int \<lfloor>q\<rfloor> < q)"
  by (auto simp: round_half_even_def Let_def)

lemma round_half_even_ge:
  assumes "of_int a \<le> q"
  shows "a \<le> round_half_even q"
proof -
  from assms have "a \<le> \<lfloor>q\<rfloor>"
    by (simp add: le_floor_iff)
  with round_half_even_cases [of q] show ?thesis
    by auto
qed

lemma round_half_even_le:
  assumes "q \<le> of_int b"
  shows "round_half_even q \<le> b"
proof -
  from assms have f: "\<lfloor>q\<rfloor> \<le> b"
    by (simp add: floor_le_iff)
  have "\<lfloor>q\<rfloor> < b" if "of_int \<lfloor>q\<rfloor> < q"
  proof -
    from that assms have "(of_int \<lfloor>q\<rfloor> :: real) < of_int b"
      by linarith
    then show ?thesis
      by simp
  qed
  with f round_half_even_cases [of q] show ?thesis
    by auto
qed

lemma ulp_normal:
  assumes "2 powr of_int k \<le> \<bar>r\<bar>" and "\<bar>r\<bar> < 2 powr (of_int k + 1)" and "- 1022 \<le> k"
  shows "ulp r = 2 powr (of_int k - 52)"
proof -
  have "0 < 2 powr real_of_int k"
    by simp
  with assms(1) have "0 < \<bar>r\<bar>"
    by linarith
  with assms(1,2) have "\<lfloor>log 2 \<bar>r\<bar>\<rfloor> = k"
    by (intro floor_log2_eq)
  with assms(3) show ?thesis
    by (simp add: ulp_def)
qed

lemma ulp_subnormal:
  assumes "r \<noteq> 0" and "\<bar>r\<bar> < 2 powr (- 1022)"
  shows "ulp r = 2 powr (- 1074)"
proof -
  from assms(1) have pos: "0 < \<bar>r\<bar>"
    by simp
  with assms(2) have "log 2 \<bar>r\<bar> < - 1022"
    by (simp add: log_less_iff)
  then have "\<lfloor>log 2 \<bar>r\<bar>\<rfloor> < - 1022"
    by (simp add: floor_less_iff)
  then have "max \<lfloor>log 2 \<bar>r\<bar>\<rfloor> (- 1022) = - 1022"
    by simp
  then show ?thesis
    by (simp add: ulp_def)
qed

text \<open>
  Whatever \<open>round_double\<close> returns is a double: the rounded quotient has at most 53 bits,
  and with exactly \<open>2 ^ 53\<close> the result is the first number of the next binade.
\<close>

lemma round_half_even_abs_bounds:
  assumes "of_int a \<le> \<bar>q\<bar>" and "\<bar>q\<bar> \<le> of_int b" and "0 \<le> a"
  shows "a \<le> \<bar>round_half_even q\<bar> \<and> \<bar>round_half_even q\<bar> \<le> b"
proof (cases "0 \<le> q")
  case True
  with assms have "of_int a \<le> q" and "q \<le> of_int b"
    by simp_all
  from round_half_even_ge [OF this(1)] round_half_even_le [OF this(2)] assms(3)
  show ?thesis
    by simp
next
  case False
  with assms have "of_int (- b) \<le> q" and "q \<le> of_int (- a)"
    by simp_all
  from round_half_even_ge [OF this(1)] round_half_even_le [OF this(2)] assms(3)
  show ?thesis
    by simp
qed

lemma powr_split:
  "(2::real) powr of_int k = 2 ^ 52 * 2 powr (of_int k - 52)"
  "(2::real) powr (of_int k + 1) = 2 ^ 53 * 2 powr (of_int k - 52)"
  "(2::real) powr (of_int k + 1 - 52) = 2 * 2 powr (of_int k - 52)"
  by (simp_all add: powr_diff powr_add)

lemma ratio_normal:
  assumes "2 ^ 52 \<le> \<bar>n\<bar>" and "\<bar>n\<bar> \<le> 2 ^ 53" and "- 1022 \<le> k"
  shows "of_int n * 2 powr (of_int k - 52) / ulp (of_int n * 2 powr (of_int k - 52)) \<in> \<int>"
proof -
  let ?u = "2 powr (of_int k - 52) :: real"
  let ?r = "of_int n * ?u"
  have u: "0 < ?u"
    by simp
  have abs_r: "\<bar>?r\<bar> = of_int \<bar>n\<bar> * ?u"
    by (simp add: abs_mult)
  from assms(1) have "(2 ^ 52 :: real) \<le> of_int \<bar>n\<bar>"
    by (metis of_int_le_iff of_int_numeral of_int_power)
  with u have lo: "2 powr of_int k \<le> \<bar>?r\<bar>"
    unfolding abs_r powr_split(1) by (intro mult_right_mono) simp_all
  show ?thesis
  proof (cases "\<bar>n\<bar> = 2 ^ 53")
    case False
    with assms(2) have "\<bar>n\<bar> < 2 ^ 53"
      by simp
    then have "(of_int \<bar>n\<bar> :: real) < 2 ^ 53"
      by (metis of_int_less_iff of_int_numeral of_int_power)
    with u have "\<bar>?r\<bar> < 2 powr (of_int k + 1)"
      unfolding abs_r powr_split(2) by (intro mult_strict_right_mono) simp_all
    from ulp_normal [OF lo this assms(3)] u show ?thesis
      by simp
  next
    case True
    then have "(of_int \<bar>n\<bar> :: real) = 2 ^ 53"
      by (metis of_int_numeral of_int_power)
    then have eq: "\<bar>?r\<bar> = 2 powr (of_int k + 1)"
      unfolding abs_r powr_split(2) by simp
    have "ulp ?r = 2 powr (of_int (k + 1) - 52)"
    proof (rule ulp_normal)
      show "2 powr real_of_int (k + 1) \<le> \<bar>?r\<bar>"
        using eq by simp
      show "\<bar>?r\<bar> < 2 powr (real_of_int (k + 1) + 1)"
        unfolding eq by simp
      show "- 1022 \<le> k + 1"
        using assms(3) by simp
    qed
    then have ulp: "ulp ?r = 2 * ?u"
      using powr_split(3) [of k] by simp
    from True have "even n"
      by (metis abs_of_nonneg abs_of_nonpos even_minus even_numeral even_power linear zero_less_numeral dvd_abs_iff)
    then obtain m where "n = 2 * m"
      by (elim evenE)
    with u show ?thesis
      unfolding ulp by simp
  qed
qed

lemma ratio_subnormal:
  assumes "\<bar>n\<bar> \<le> 2 ^ 52" and "n \<noteq> 0"
  shows "of_int n * 2 powr (- 1074) / ulp (of_int n * 2 powr (- 1074)) \<in> \<int>"
proof -
  let ?u = "2 powr (- 1074) :: real"
  let ?r = "of_int n * ?u"
  have u: "0 < ?u"
    by simp
  have abs_r: "\<bar>?r\<bar> = of_int \<bar>n\<bar> * ?u"
    by (simp add: abs_mult)
  from assms(2) u have nz: "?r \<noteq> 0"
    by simp
  have split: "(2::real) powr (- 1022) = 2 ^ 52 * ?u"
    using powr_split(1) [of "- 1022"] by simp
  have "ulp ?r = ?u"
  proof (cases "\<bar>n\<bar> = 2 ^ 52")
    case False
    with assms(1) have "\<bar>n\<bar> < 2 ^ 52"
      by simp
    then have "(of_int \<bar>n\<bar> :: real) < 2 ^ 52"
      by (metis of_int_less_iff of_int_numeral of_int_power)
    with u have "\<bar>?r\<bar> < 2 powr (- 1022)"
      unfolding abs_r split by (intro mult_strict_right_mono) simp_all
    from ulp_subnormal [OF nz this] show ?thesis .
  next
    case True
    then have "(of_int \<bar>n\<bar> :: real) = 2 ^ 52"
      by (metis of_int_numeral of_int_power)
    then have eq: "\<bar>?r\<bar> = 2 powr (- 1022)"
      unfolding abs_r split by simp
    have "ulp ?r = 2 powr (of_int (- 1022) - 52)"
    proof (rule ulp_normal)
      show "2 powr real_of_int (- 1022) \<le> \<bar>?r\<bar>"
        using eq by simp
      show "\<bar>?r\<bar> < 2 powr (real_of_int (- 1022) + 1)"
        unfolding eq by simp
      show "- 1022 \<le> (- 1022 :: int)"
        by simp
    qed
    then show ?thesis
      by simp
  qed
  with u show ?thesis
    by simp
qed

lemma rounded_ratio:
  assumes "v \<noteq> 0" and "of_int (round_half_even (v / ulp v)) * ulp v \<noteq> 0"
  shows "of_int (round_half_even (v / ulp v)) * ulp v
           / ulp (of_int (round_half_even (v / ulp v)) * ulp v) \<in> \<int>"
proof -
  let ?n = "round_half_even (v / ulp v)"
  from assms(1) have pos: "0 < \<bar>v\<bar>"
    by simp
  have absq: "\<bar>v / ulp v\<bar> = \<bar>v\<bar> / ulp v"
    using ulp_pos [of v] by simp
  show ?thesis
  proof (cases "- 1022 \<le> \<lfloor>log 2 \<bar>v\<bar>\<rfloor>")
    case True
    define k where "k = \<lfloor>log 2 \<bar>v\<bar>\<rfloor>"
    with pos have lo: "2 powr of_int k \<le> \<bar>v\<bar>" and hi: "\<bar>v\<bar> < 2 powr (of_int k + 1)"
      using floor_log_eq_powr_iff [of "\<bar>v\<bar>" 2 k] by simp_all
    from True have k: "- 1022 \<le> k"
      by (simp add: k_def)
    have u: "ulp v = 2 powr (of_int k - 52)"
      by (rule ulp_normal [OF lo hi k])
    have "of_int (2 ^ 52) \<le> \<bar>v / ulp v\<bar>"
      unfolding absq u using lo by (simp add: powr_split(1) [of k] pos_le_divide_eq)
    moreover have "\<bar>v / ulp v\<bar> \<le> of_int (2 ^ 53)"
      unfolding absq u using hi by (simp add: powr_split(2) [of k] pos_divide_le_eq)
    ultimately have "2 ^ 52 \<le> \<bar>?n\<bar> \<and> \<bar>?n\<bar> \<le> 2 ^ 53"
      by (intro round_half_even_abs_bounds) simp_all
    then show ?thesis
      unfolding u using ratio_normal [of ?n k] k by (simp add: u [symmetric])
  next
    case False
    then have "\<lfloor>log 2 \<bar>v\<bar>\<rfloor> < - 1022"
      by simp
    then have "log 2 \<bar>v\<bar> < - 1022"
      by (simp add: floor_less_iff)
    with pos have small: "\<bar>v\<bar> < 2 powr (- 1022)"
      by (simp add: log_less_iff)
    have u: "ulp v = 2 powr (- 1074)"
      by (rule ulp_subnormal [OF assms(1) small])
    have split: "(2::real) powr (- 1022) = 2 ^ 52 * 2 powr (- 1074)"
      using powr_split(1) [of "- 1022"] by simp
    have "of_int 0 \<le> \<bar>v / ulp v\<bar>"
      by simp
    moreover have "\<bar>v / ulp v\<bar> \<le> of_int (2 ^ 52)"
      unfolding absq u using small by (simp add: split pos_divide_le_eq)
    ultimately have "\<bar>?n\<bar> \<le> 2 ^ 52"
      using round_half_even_abs_bounds [of 0 "v / ulp v" "2 ^ 52"] by simp
    moreover from assms(2) have "?n \<noteq> 0"
      by auto
    ultimately show ?thesis
      unfolding u using ratio_subnormal [of ?n] by (simp add: u [symmetric])
  qed
qed

lemma is_double_round_double: "is_double (round_double v)"
proof (cases "v = 0")
  case True
  then show ?thesis
    by (simp add: round_double_def is_double_def representable_def)
next
  case False
  then show ?thesis
    using rounded_ratio [OF False]
    by (auto simp: round_double_def Let_def is_double_def representable_def)
qed

text \<open>
  Sums and differences are doubles; adding zero changes no double; an exact sum or
  difference is the exact result.
\<close>

lemma is_double_simps:
  "is_double NaN" "is_double PosInf" "is_double NegInf" "is_double (Num v) = representable v"
  by (simp_all add: is_double_def)

lemma is_double_js_add: "is_double (js_add a b)"
  by (cases a; cases b) (simp_all add: is_double_round_double is_double_simps)

lemma is_double_js_sub: "is_double (js_sub a b)"
  by (simp add: js_sub_def is_double_js_add)


lemma js_sub_Num: "js_sub (Num a) (Num b) = round_double (a - b)"
  by (simp add: js_sub_def)



text \<open>
  The integers up to \<open>2 ^ 53\<close> are doubles, and between \<open>2 ^ 53\<close> and \<open>2 ^ 54\<close> the
  doubles are the even integers: there a number is rounded to a multiple of 2.
\<close>

lemma overflow_threshold_large: "2 ^ 60 < overflow_threshold"
  unfolding overflow_threshold_def by (rule power_strict_increasing) simp_all

lemma representable_int:
  assumes "v \<in> \<int>" and "\<bar>v\<bar> \<le> 2 ^ 53"
  shows "representable v"
proof (cases "v = 0")
  case True
  then show ?thesis
    by (simp add: representable_def)
next
  case False
  from assms(1) obtain n where n: "v = of_int n"
    by (auto elim: Ints_cases)
  with False have "n \<noteq> 0"
    by auto
  then have "1 \<le> \<bar>n\<bar>"
    by simp
  then have "(1::real) \<le> of_int \<bar>n\<bar>"
    by (simp only: of_int_1_le_iff)
  then have one: "1 \<le> \<bar>v\<bar>"
    unfolding n by simp
  define k where "k = \<lfloor>log 2 \<bar>v\<bar>\<rfloor>"
  from one have pos: "0 < \<bar>v\<bar>"
    by linarith
  with k_def have lo: "2 powr of_int k \<le> \<bar>v\<bar>" and hi: "\<bar>v\<bar> < 2 powr (of_int k + 1)"
    using floor_log_eq_powr_iff [of "\<bar>v\<bar>" 2 k] by simp_all
  from one have "0 \<le> log 2 \<bar>v\<bar>"
    by simp
  then have k0: "0 \<le> k"
    by (simp add: k_def)
  have k53: "k \<le> 53"
  proof (rule ccontr)
    assume "\<not> k \<le> 53"
    then have "(54::real) \<le> of_int k"
      by simp
    then have "(2::real) powr 54 \<le> 2 powr of_int k"
      by (intro powr_mono) simp_all
    with lo assms(2) show False
      by simp
  qed
  from k0 have u: "ulp v = 2 powr (of_int k - 52)"
    by (intro ulp_normal [OF lo hi]) simp
  from assms(2) overflow_threshold_large have small: "\<bar>v\<bar> < overflow_threshold"
    by simp
  have "v / ulp v \<in> \<int>"
  proof (cases "k = 53")
    case True
    with lo assms(2) have "\<bar>v\<bar> = 2 ^ 53"
      by simp
    then have "\<bar>n\<bar> = 2 ^ 53"
      unfolding n by (metis of_int_abs of_int_eq_iff of_int_numeral of_int_power)
    then have "even n"
      by (metis abs_of_nonneg abs_of_nonpos even_minus even_numeral even_power linear zero_less_numeral dvd_abs_iff)
    then obtain m where "n = 2 * m"
      by (elim evenE)
    moreover from True have "v / ulp v = v / 2"
      unfolding u by simp
    ultimately show ?thesis
      unfolding n by simp
  next
    case False
    with k53 have "0 \<le> 52 - k"
      by simp
    then obtain j where j: "52 - k = int j"
      using nonneg_int_cases by blast
    have "v / ulp v = v * 2 powr (of_int (52 - k))"
      unfolding u by (simp add: powr_diff)
    also have "\<dots> = v * 2 ^ j"
      unfolding j by (simp add: powr_realpow)
    also have "\<dots> = of_int (n * 2 ^ j)"
      unfolding n by simp
    finally show ?thesis
      by simp
  qed
  with False small show ?thesis
    by (simp add: representable_def)
qed

lemma ulp_binade_53:
  assumes "2 ^ 53 \<le> \<bar>v\<bar>" and "\<bar>v\<bar> < 2 ^ 54"
  shows "ulp v = 2"
proof -
  have "ulp v = 2 powr (of_int 53 - 52)"
    by (rule ulp_normal) (use assms in simp_all)
  then show ?thesis
    by simp
qed

lemma round_double_binade_53:
  assumes "2 ^ 53 \<le> \<bar>v\<bar>" and "\<bar>v\<bar> < 2 ^ 54"
  shows "round_double v = Num (of_int (round_half_even (v / 2)) * 2)"
proof -
  from assms(2) have "of_int 0 \<le> \<bar>v / 2\<bar>" and "\<bar>v / 2\<bar> \<le> of_int (2 ^ 53)"
    by simp_all
  then have "\<bar>round_half_even (v / 2)\<bar> \<le> 2 ^ 53"
    using round_half_even_abs_bounds [of 0 "v / 2" "2 ^ 53"] by simp
  then have "(of_int \<bar>round_half_even (v / 2)\<bar> :: real) \<le> 2 ^ 53"
    by (metis of_int_le_iff of_int_numeral of_int_power)
  then have "\<bar>of_int (round_half_even (v / 2)) * 2 :: real\<bar> \<le> 2 ^ 60"
    by (simp add: abs_mult)
  with overflow_threshold_large
  have "\<bar>of_int (round_half_even (v / 2)) * 2 :: real\<bar> < overflow_threshold"
    by linarith
  moreover from assms(1) have "v \<noteq> 0"
    by auto
  ultimately show ?thesis
    by (auto simp: round_double_def ulp_binade_53 [OF assms] Let_def)
qed


lemma round_double_int: "v \<in> \<int> \<Longrightarrow> \<bar>v\<bar> \<le> 2 ^ 53 \<Longrightarrow> round_double v = Num v"
  by (simp add: round_double_exact representable_int)





lemma members_rect_combine: "members (rect_combine ds) = ds"
  by (cases ds) (simp_all add: Let_def)

text \<open>
  The loop of \<open>distribute_horizontal\<close>, entered at index \<open>i\<close> with \<open>i\<close> diagrams placed:
  the result has the length of the input, the diagrams placed so far stay as they are, and
  every later one is the input's diagram moved against its predecessor in the result.
\<close>

lemma dh_loop_length:
  "length acc = i \<Longrightarrow> i \<le> length ds \<Longrightarrow>
   length (distribute_horizontal_loop ga tr ds sp i acc) = length ds"
proof (induction ga tr ds sp i acc rule: distribute_horizontal_loop.induct)
  case (1 ga tr ds sp i acc)
  show ?case
  proof (cases "i < length ds")
    case True
    with 1 show ?thesis
      by (subst distribute_horizontal_loop.simps) (simp add: Let_def)
  next
    case False
    with 1 show ?thesis
      by (subst distribute_horizontal_loop.simps) simp
  qed
qed

lemma dh_loop_prefix:
  "length acc = i \<Longrightarrow> j < i \<Longrightarrow>
   distribute_horizontal_loop ga tr ds sp i acc ! j = acc ! j"
proof (induction ga tr ds sp i acc rule: distribute_horizontal_loop.induct)
  case (1 ga tr ds sp i acc)
  show ?case
  proof (cases "i < length ds")
    case True
    with 1 show ?thesis
      by (subst distribute_horizontal_loop.simps) (simp add: Let_def nth_append)
  next
    case False
    then show ?thesis
      by (subst distribute_horizontal_loop.simps) simp
  qed
qed

lemma dh_loop_step:
  "length acc = i \<Longrightarrow> 1 \<le> i \<Longrightarrow> i \<le> j \<Longrightarrow> j < length ds \<Longrightarrow>
   distribute_horizontal_loop ga tr ds sp i acc ! j =
     tr (ds ! j) (V2 (js_add (js_sub (x (ga (distribute_horizontal_loop ga tr ds sp i acc ! (j - 1)) top_right))
                      (x (ga (ds ! j) top_left))) sp) 0)"
proof (induction ga tr ds sp i acc rule: distribute_horizontal_loop.induct)
  case (1 ga tr ds sp i acc)
  let ?new = "tr (ds ! i) (V2 (js_add (js_sub (x (ga (acc ! (i - 1)) top_right)) (x (ga (ds ! i) top_left))) sp) 0)"
  from 1 have lt: "i < length ds" by simp
  have unfold: "distribute_horizontal_loop ga tr ds sp i acc =
                distribute_horizontal_loop ga tr ds sp (i + 1) (acc @ [?new])"
    using lt by (subst distribute_horizontal_loop.simps) (simp add: Let_def)
  show ?case
  proof (cases "j = i")
    case True
    have a: "distribute_horizontal_loop ga tr ds sp (i + 1) (acc @ [?new]) ! i = ?new"
      using 1 by (simp add: dh_loop_prefix nth_append)
    have b: "distribute_horizontal_loop ga tr ds sp (i + 1) (acc @ [?new]) ! (i - 1) = acc ! (i - 1)"
      using 1 by (simp add: dh_loop_prefix nth_append)
    show ?thesis
      unfolding unfold True a b ..
  next
    case False
    with 1 have "i + 1 \<le> j" by simp
    with 1 lt show ?thesis
      unfolding unfold by simp
  qed
qed

text \<open>
  The same three facts for the loop of \<open>distribute_vertical\<close>.
\<close>

lemma dv_loop_length:
  "length acc = i \<Longrightarrow> i \<le> length ds \<Longrightarrow>
   length (distribute_vertical_loop ga tr ds sp i acc) = length ds"
proof (induction ga tr ds sp i acc rule: distribute_vertical_loop.induct)
  case (1 ga tr ds sp i acc)
  show ?case
  proof (cases "i < length ds")
    case True
    with 1 show ?thesis
      by (subst distribute_vertical_loop.simps) (simp add: Let_def)
  next
    case False
    with 1 show ?thesis
      by (subst distribute_vertical_loop.simps) simp
  qed
qed

lemma dv_loop_prefix:
  "length acc = i \<Longrightarrow> j < i \<Longrightarrow>
   distribute_vertical_loop ga tr ds sp i acc ! j = acc ! j"
proof (induction ga tr ds sp i acc rule: distribute_vertical_loop.induct)
  case (1 ga tr ds sp i acc)
  show ?case
  proof (cases "i < length ds")
    case True
    with 1 show ?thesis
      by (subst distribute_vertical_loop.simps) (simp add: Let_def nth_append)
  next
    case False
    then show ?thesis
      by (subst distribute_vertical_loop.simps) simp
  qed
qed

lemma dv_loop_step:
  "length acc = i \<Longrightarrow> 1 \<le> i \<Longrightarrow> i \<le> j \<Longrightarrow> j < length ds \<Longrightarrow>
   distribute_vertical_loop ga tr ds sp i acc ! j =
     tr (ds ! j) (V2 0 (js_sub (js_sub (y (ga (distribute_vertical_loop ga tr ds sp i acc ! (j - 1)) bottom_left))
                      (y (ga (ds ! j) top_left))) sp))"
proof (induction ga tr ds sp i acc rule: distribute_vertical_loop.induct)
  case (1 ga tr ds sp i acc)
  let ?new = "tr (ds ! i) (V2 0 (js_sub (js_sub (y (ga (acc ! (i - 1)) bottom_left)) (y (ga (ds ! i) top_left))) sp))"
  from 1 have lt: "i < length ds" by simp
  have unfold: "distribute_vertical_loop ga tr ds sp i acc =
                distribute_vertical_loop ga tr ds sp (i + 1) (acc @ [?new])"
    using lt by (subst distribute_vertical_loop.simps) (simp add: Let_def)
  show ?case
  proof (cases "j = i")
    case True
    have a: "distribute_vertical_loop ga tr ds sp (i + 1) (acc @ [?new]) ! i = ?new"
      using 1 by (simp add: dv_loop_prefix nth_append)
    have b: "distribute_vertical_loop ga tr ds sp (i + 1) (acc @ [?new]) ! (i - 1) = acc ! (i - 1)"
      using 1 by (simp add: dv_loop_prefix nth_append)
    show ?thesis
      unfolding unfold True a b ..
  next
    case False
    with 1 have "i + 1 \<le> j" by simp
    with 1 lt show ?thesis
      unfolding unfold by simp
  qed
qed

text \<open>
  Both distribution functions enter their loop at index 1, with the first diagram placed.
\<close>

lemma distribute_horizontal_length:
  "length (distribute_horizontal ga tr S gap) = length S"
  by (simp add: distribute_horizontal_def dh_loop_length Suc_leI)

lemma distribute_horizontal_first:
  "S \<noteq> [] \<Longrightarrow> distribute_horizontal ga tr S gap ! 0 = S ! 0"
  by (simp add: distribute_horizontal_def dh_loop_prefix)

lemma distribute_horizontal_step:
  "1 \<le> i \<Longrightarrow> i < length S \<Longrightarrow>
   distribute_horizontal ga tr S gap ! i =
     tr (S ! i) (V2 (js_add (js_sub (x (ga (distribute_horizontal ga tr S gap ! (i - 1)) top_right))
                     (x (ga (S ! i) top_left))) gap) 0)"
  unfolding distribute_horizontal_def
  by (auto simp: dh_loop_step)

lemma distribute_vertical_length:
  "length (distribute_vertical ga tr S gap) = length S"
  by (simp add: distribute_vertical_def dv_loop_length Suc_leI)

lemma distribute_vertical_first:
  "S \<noteq> [] \<Longrightarrow> distribute_vertical ga tr S gap ! 0 = S ! 0"
  by (simp add: distribute_vertical_def dv_loop_prefix)

lemma distribute_vertical_step:
  "1 \<le> i \<Longrightarrow> i < length S \<Longrightarrow>
   distribute_vertical ga tr S gap ! i =
     tr (S ! i) (V2 0 (js_sub (js_sub (y (ga (distribute_vertical ga tr S gap ! (i - 1)) bottom_left))
                     (y (ga (S ! i) top_left))) gap))"
  unfolding distribute_vertical_def
  by (auto simp: dv_loop_step)

text \<open>
  The branches of the two alignment functions on a non-empty array.
\<close>

lemma align_vertical_top:
  "S \<noteq> [] \<Longrightarrow> align_vertical ga tr S ''top'' =
     Inr (map (\<lambda>d. tr d (V2 0 (js_sub (y (ga (S ! 0) top_left)) (y (ga d top_left))))) S)"
  by (simp add: align_vertical_def)

lemma align_vertical_center:
  "S \<noteq> [] \<Longrightarrow> align_vertical ga tr S ''center'' =
     Inr (map (\<lambda>d. tr d (V2 0 (js_sub (y (ga (S ! 0) center_left)) (y (ga d center_left))))) S)"
  by (simp add: align_vertical_def)

lemma align_vertical_bottom:
  "S \<noteq> [] \<Longrightarrow> align_vertical ga tr S ''bottom'' =
     Inr (map (\<lambda>d. tr d (V2 0 (js_sub (y (ga (S ! 0) bottom_left)) (y (ga d bottom_left))))) S)"
  by (simp add: align_vertical_def)

lemma align_vertical_unknown:
  "S \<noteq> [] \<Longrightarrow> m \<notin> {''top'', ''center'', ''bottom''} \<Longrightarrow>
   align_vertical ga tr S m = Inl (Error (''Unknown vertical alignment : '' @ m))"
  by (simp add: align_vertical_def)

lemma align_horizontal_left:
  "S \<noteq> [] \<Longrightarrow> align_horizontal ga tr S ''left'' =
     Inr (map (\<lambda>d. tr d (V2 (js_sub (x (ga (S ! 0) top_left)) (x (ga d top_left))) 0)) S)"
  by (simp add: align_horizontal_def)

lemma align_horizontal_center:
  "S \<noteq> [] \<Longrightarrow> align_horizontal ga tr S ''center'' =
     Inr (map (\<lambda>d. tr d (V2 (js_sub (x (ga (S ! 0) top_center)) (x (ga d top_center))) 0)) S)"
  by (simp add: align_horizontal_def)

lemma align_horizontal_right:
  "S \<noteq> [] \<Longrightarrow> align_horizontal ga tr S ''right'' =
     Inr (map (\<lambda>d. tr d (V2 (js_sub (x (ga (S ! 0) top_right)) (x (ga d top_right))) 0)) S)"
  by (simp add: align_horizontal_def)

lemma align_horizontal_unknown:
  "S \<noteq> [] \<Longrightarrow> m \<notin> {''left'', ''center'', ''right''} \<Longrightarrow>
   align_horizontal ga tr S m = Inl (Error (''Unknown horizontal alignment : '' @ m))"
  by (simp add: align_horizontal_def)

text \<open>
  Whatever an alignment returns is the input mapped by a shift along one axis; the
  compositions return the distribution of what the alignment returned.
\<close>

lemma align_vertical_shape:
  assumes "align_vertical ga tr S m = Inr out"
  shows "\<exists>r a. out = map (\<lambda>d. tr d (V2 0 (js_sub r (y (ga d a))))) S"
proof (cases "S = []")
  case True
  with assms show ?thesis
    by (simp add: align_vertical_def)
next
  case False
  with assms have "m = ''top'' \<or> m = ''center'' \<or> m = ''bottom''"
    by (simp add: align_vertical_def split: if_splits)
  then show ?thesis
  proof (elim disjE)
    assume "m = ''top''"
    with assms align_vertical_top [OF False, of ga tr] show ?thesis
      by (intro exI [of _ "y (ga (S ! 0) top_left)"] exI [of _ top_left]) simp
  next
    assume "m = ''center''"
    with assms align_vertical_center [OF False, of ga tr] show ?thesis
      by (intro exI [of _ "y (ga (S ! 0) center_left)"] exI [of _ center_left]) simp
  next
    assume "m = ''bottom''"
    with assms align_vertical_bottom [OF False, of ga tr] show ?thesis
      by (intro exI [of _ "y (ga (S ! 0) bottom_left)"] exI [of _ bottom_left]) simp
  qed
qed

lemma align_horizontal_shape:
  assumes "align_horizontal ga tr S m = Inr out"
  shows "\<exists>r a. out = map (\<lambda>d. tr d (V2 (js_sub r (x (ga d a))) 0)) S"
proof (cases "S = []")
  case True
  with assms show ?thesis
    by (simp add: align_horizontal_def)
next
  case False
  with assms have "m = ''left'' \<or> m = ''center'' \<or> m = ''right''"
    by (simp add: align_horizontal_def split: if_splits)
  then show ?thesis
  proof (elim disjE)
    assume "m = ''left''"
    with assms align_horizontal_left [OF False, of ga tr] show ?thesis
      by (intro exI [of _ "x (ga (S ! 0) top_left)"] exI [of _ top_left]) simp
  next
    assume "m = ''center''"
    with assms align_horizontal_center [OF False, of ga tr] show ?thesis
      by (intro exI [of _ "x (ga (S ! 0) top_center)"] exI [of _ top_center]) simp
  next
    assume "m = ''right''"
    with assms align_horizontal_right [OF False, of ga tr] show ?thesis
      by (intro exI [of _ "x (ga (S ! 0) top_right)"] exI [of _ top_right]) simp
  qed
qed

lemma align_vertical_returns:
  "m \<in> {''top'', ''center'', ''bottom''} \<Longrightarrow> \<exists>out. align_vertical ga tr S m = Inr out"
  by (auto simp: align_vertical_def Let_def)

lemma align_horizontal_returns:
  "m \<in> {''left'', ''center'', ''right''} \<Longrightarrow> \<exists>out. align_horizontal ga tr S m = Inr out"
  by (auto simp: align_horizontal_def Let_def)

lemma align_vertical_image:
  assumes "align_vertical ga tr S m = Inr out"
  shows "length out = length S \<and> (\<forall>i<length S. \<exists>dy. out ! i = tr (S ! i) (V2 0 dy))"
proof -
  from align_vertical_shape [OF assms] obtain r a
    where "out = map (\<lambda>d. tr d (V2 0 (js_sub r (y (ga d a))))) S"
    by (elim exE)
  then show ?thesis
    by auto
qed

lemma align_horizontal_image:
  assumes "align_horizontal ga tr S m = Inr out"
  shows "length out = length S \<and> (\<forall>i<length S. \<exists>dx. out ! i = tr (S ! i) (V2 dx 0))"
proof -
  from align_horizontal_shape [OF assms] obtain r a
    where "out = map (\<lambda>d. tr d (V2 (js_sub r (x (ga d a))) 0)) S"
    by (elim exE)
  then show ?thesis
    by auto
qed

lemma distribute_horizontal_image:
  "\<forall>i<length S. if i = 0 then distribute_horizontal ga tr S gap ! i = S ! i
      else \<exists>dx. distribute_horizontal ga tr S gap ! i = tr (S ! i) (V2 dx 0)"
proof (intro allI impI)
  fix i
  assume "i < length S"
  then show "if i = 0 then distribute_horizontal ga tr S gap ! i = S ! i
      else \<exists>dx. distribute_horizontal ga tr S gap ! i = tr (S ! i) (V2 dx 0)"
    using distribute_horizontal_first [of S ga tr gap]
      distribute_horizontal_step [of i S ga tr gap]
    by (cases "i = 0") auto
qed

lemma distribute_vertical_image:
  "\<forall>i<length S. if i = 0 then distribute_vertical ga tr S gap ! i = S ! i
      else \<exists>dy. distribute_vertical ga tr S gap ! i = tr (S ! i) (V2 0 dy)"
proof (intro allI impI)
  fix i
  assume "i < length S"
  then show "if i = 0 then distribute_vertical ga tr S gap ! i = S ! i
      else \<exists>dy. distribute_vertical ga tr S gap ! i = tr (S ! i) (V2 0 dy)"
    using distribute_vertical_first [of S ga tr gap]
      distribute_vertical_step [of i S ga tr gap]
    by (cases "i = 0") auto
qed

lemma distribute_horizontal_and_align_Inr:
  "distribute_horizontal_and_align ga tr S gap m = Inr out \<Longrightarrow>
   \<exists>aligned. align_vertical ga tr S m = Inr aligned \<and> out = distribute_horizontal ga tr aligned gap"
  by (auto simp: distribute_horizontal_and_align_def split: sum.splits)

lemma distribute_vertical_and_align_Inr:
  "distribute_vertical_and_align ga tr S gap m = Inr out \<Longrightarrow>
   \<exists>aligned. align_horizontal ga tr S m = Inr aligned \<and> out = distribute_vertical ga tr aligned gap"
  by (auto simp: distribute_vertical_and_align_def split: sum.splits)

lemma distribute_horizontal_and_align_image:
  assumes "distribute_horizontal_and_align ga tr S gap m = Inr out"
  shows "length out = length S
     \<and> (\<forall>i<length S. \<exists>dy. if i = 0 then out ! i = tr (S ! i) (V2 0 dy)
            else \<exists>dx. out ! i = tr (tr (S ! i) (V2 0 dy)) (V2 dx 0))"
proof -
  from distribute_horizontal_and_align_Inr [OF assms] obtain aligned
    where al: "align_vertical ga tr S m = Inr aligned"
      and out: "out = distribute_horizontal ga tr aligned gap"
    by (elim exE conjE)
  from align_vertical_image [OF al]
  have len: "length aligned = length S"
    and img: "\<forall>i<length S. \<exists>dy. aligned ! i = tr (S ! i) (V2 0 dy)"
    by simp_all
  have "\<exists>dy. if i = 0 then out ! i = tr (S ! i) (V2 0 dy)
            else \<exists>dx. out ! i = tr (tr (S ! i) (V2 0 dy)) (V2 dx 0)" if "i < length S" for i
  proof -
    from img that obtain dy where dy: "aligned ! i = tr (S ! i) (V2 0 dy)"
      by blast
    from that len have "i < length aligned"
      by simp
    with distribute_horizontal_image [of aligned ga tr gap]
    have "if i = 0 then out ! i = aligned ! i else \<exists>dx. out ! i = tr (aligned ! i) (V2 dx 0)"
      unfolding out by blast
    with dy show ?thesis
      by (cases "i = 0") auto
  qed
  with len show ?thesis
    by (simp add: out distribute_horizontal_length)
qed

lemma distribute_vertical_and_align_image:
  assumes "distribute_vertical_and_align ga tr S gap m = Inr out"
  shows "length out = length S
     \<and> (\<forall>i<length S. \<exists>dx. if i = 0 then out ! i = tr (S ! i) (V2 dx 0)
            else \<exists>dy. out ! i = tr (tr (S ! i) (V2 dx 0)) (V2 0 dy))"
proof -
  from distribute_vertical_and_align_Inr [OF assms] obtain aligned
    where al: "align_horizontal ga tr S m = Inr aligned"
      and out: "out = distribute_vertical ga tr aligned gap"
    by (elim exE conjE)
  from align_horizontal_image [OF al]
  have len: "length aligned = length S"
    and img: "\<forall>i<length S. \<exists>dx. aligned ! i = tr (S ! i) (V2 dx 0)"
    by simp_all
  have "\<exists>dx. if i = 0 then out ! i = tr (S ! i) (V2 dx 0)
            else \<exists>dy. out ! i = tr (tr (S ! i) (V2 dx 0)) (V2 0 dy)" if "i < length S" for i
  proof -
    from img that obtain dx where dx: "aligned ! i = tr (S ! i) (V2 dx 0)"
      by blast
    from that len have "i < length aligned"
      by simp
    with distribute_vertical_image [of aligned ga tr gap]
    have "if i = 0 then out ! i = aligned ! i else \<exists>dy. out ! i = tr (aligned ! i) (V2 0 dy)"
      unfolding out by blast
    with dx show ?thesis
      by (cases "i = 0") auto
  qed
  with len show ?thesis
    by (simp add: out distribute_vertical_length)
qed




















lemmas js_eval = Let_def js_sub_Num round_double_int round_double_binade_53 round_half_even_def
  V2_def zero_number_def

lemma align_vertical_three_rects:
  "align_vertical rect_anchor rect_translate three_rects ''top''
     = Inr [Rect (Num 0) (Num 1) (Num 2) (Num 2) (Num 1) (Num 0) [],
            Rect (Num 4) (Num 6) (Num 8) (Num 2) (Num 0) (Num (- 2)) [],
            Rect (Num (- 4)) (Num (- 3)) (Num (- 2)) (Num 2) (Num 0) (Num (- 2)) []]"
  "align_vertical rect_anchor rect_translate three_rects ''center''
     = Inr [Rect (Num 0) (Num 1) (Num 2) (Num 2) (Num 1) (Num 0) [],
            Rect (Num 4) (Num 6) (Num 8) (Num 3) (Num 1) (Num (- 1)) [],
            Rect (Num (- 4)) (Num (- 3)) (Num (- 2)) (Num 3) (Num 1) (Num (- 1)) []]"
  by (simp_all add: align_vertical_def three_rects_def js_eval)

lemma align_horizontal_three_rects:
  "align_horizontal rect_anchor rect_translate three_rects ''center''
     = Inr [Rect (Num 0) (Num 1) (Num 2) (Num 2) (Num 1) (Num 0) [],
            Rect (Num (- 1)) (Num 1) (Num 3) (Num 6) (Num 4) (Num 2) [],
            Rect (Num 0) (Num 1) (Num 2) (Num 0) (Num (- 2)) (Num (- 4)) []]"
  by (simp add: align_horizontal_def three_rects_def js_eval)



lemma distribute_horizontal_and_align_three_rects:
  "distribute_horizontal_and_align rect_anchor rect_translate three_rects (Num 10) ''top''
     = Inr [Rect (Num 0) (Num 1) (Num 2) (Num 2) (Num 1) (Num 0) [],
            Rect (Num 12) (Num 14) (Num 16) (Num 2) (Num 0) (Num (- 2)) [],
            Rect (Num 26) (Num 27) (Num 28) (Num 2) (Num 0) (Num (- 2)) []]"
  by (simp add: distribute_horizontal_and_align_def align_vertical_three_rects
      distribute_horizontal_def distribute_horizontal_loop.simps js_eval)

lemma distribute_vertical_and_align_three_rects:
  "distribute_vertical_and_align rect_anchor rect_translate three_rects (Num 10) ''center''
     = Inr [Rect (Num 0) (Num 1) (Num 2) (Num 2) (Num 1) (Num 0) [],
            Rect (Num (- 1)) (Num 1) (Num 3) (Num (- 10)) (Num (- 12)) (Num (- 14)) [],
            Rect (Num 0) (Num 1) (Num 2) (Num (- 24)) (Num (- 26)) (Num (- 28)) []]"
  by (simp add: distribute_vertical_and_align_def align_horizontal_three_rects
      distribute_vertical_def distribute_vertical_loop.simps js_eval)





subsection \<open>The empty array\<close>

text \<open>
  C5. For the empty input sequence, each of \<open>align_vertical\<close>, \<open>align_horizontal\<close>,
  \<open>distribute_horizontal\<close> and \<open>distribute_vertical\<close> returns the empty sequence and
  raises no error, whatever the mode and whatever the gap.
\<close>

theorem empty_input_returns_empty:
  "align_vertical get_anchor translate [] alignment = Inr []
   \<and> align_horizontal get_anchor translate [] alignment = Inr []
   \<and> distribute_horizontal get_anchor translate [] space = []
   \<and> distribute_vertical get_anchor translate [] space = []"
  by (simp add: align_vertical_def align_horizontal_def distribute_horizontal_def
      distribute_vertical_def)

text \<open>
  C10. In \<open>align_vertical\<close> and in \<open>align_horizontal\<close> the test for the empty array
  comes before the mode is looked at: on the empty sequence either function returns the
  empty sequence for every mode string, also one outside its enumerated set, and raises
  no error at all (so not the unknown-mode error either).
\<close>

theorem empty_check_precedes_mode_check:
  "align_vertical get_anchor translate [] alignment = Inr []
   \<and> (\<forall>e. align_vertical get_anchor translate [] alignment \<noteq> Inl e)
   \<and> align_horizontal get_anchor translate [] alignment = Inr []
   \<and> (\<forall>e. align_horizontal get_anchor translate [] alignment \<noteq> Inl e)"
  by (simp add: align_vertical_def align_horizontal_def)

subsection \<open>Unknown modes\<close>

text \<open>
  C4 as stated (for every sequence, a mode outside the enumerated set raises) fails on the
  empty sequence: with the mode \<^verbatim>\<open>'diagonal'\<close>, which neither function knows, both
  return the empty sequence.
\<close>

theorem unknown_mode_on_empty_counterexample:
  "''diagonal'' \<notin> {''top'', ''center'', ''bottom''}
   \<and> align_vertical rect_anchor rect_translate [] ''diagonal'' = Inr []
   \<and> ''diagonal'' \<notin> {''left'', ''center'', ''right''}
   \<and> align_horizontal rect_anchor rect_translate [] ''diagonal'' = Inr []"
  by (simp add: align_vertical_def align_horizontal_def)

text \<open>
  C4, amended. For every non-empty sequence of diagrams, \<open>align_vertical\<close> with a mode
  outside \<open>{top, center, bottom}\<close> and \<open>align_horizontal\<close> with a mode outside
  \<open>{left, center, right}\<close> raise the error whose message is
  \<^verbatim>\<open>Unknown vertical alignment : \<close> (respectively \<^verbatim>\<open>Unknown horizontal alignment : \<close>)
  followed by the mode given, and so return no sequence.
\<close>

theorem unknown_mode_raises_on_nonempty:
  assumes "S \<noteq> []"
  shows "(m \<notin> {''top'', ''center'', ''bottom''} \<longrightarrow>
            align_vertical get_anchor translate S m
              = Inl (Error (''Unknown vertical alignment : '' @ m)))
       \<and> (m \<notin> {''left'', ''center'', ''right''} \<longrightarrow>
            align_horizontal get_anchor translate S m
              = Inl (Error (''Unknown horizontal alignment : '' @ m)))"
  by (intro conjI impI align_vertical_unknown [OF assms] align_horizontal_unknown [OF assms])

text \<open>
  The amended C4 on three diagrams and the mode \<^verbatim>\<open>'diagonal'\<close>.
\<close>

theorem unknown_mode_raises_on_nonempty_witness:
  "three_rects \<noteq> []
   \<and> ''diagonal'' \<notin> {''top'', ''center'', ''bottom''}
   \<and> align_vertical rect_anchor rect_translate three_rects ''diagonal''
       = Inl (Error ''Unknown vertical alignment : diagonal'')
   \<and> ''diagonal'' \<notin> {''left'', ''center'', ''right''}
   \<and> align_horizontal rect_anchor rect_translate three_rects ''diagonal''
       = Inl (Error ''Unknown horizontal alignment : diagonal'')"
proof -
  have ne: "three_rects \<noteq> []"
    by (simp add: three_rects_def)
  from unknown_mode_raises_on_nonempty [OF ne, of "''diagonal''" rect_anchor rect_translate] ne
  show ?thesis
    by simp
qed

subsection \<open>Vertical alignment\<close>







subsection \<open>Distribution\<close>







subsection \<open>Length and order\<close>

text \<open>
  C6. Every operation that returns a sequence returns one of the length of its input, and
  its element \<open>i\<close> is the image of the input's element \<open>i\<close>: for the two alignments
  \<open>S ! i\<close> translated along one axis; for the two distributions \<open>S ! 0\<close> itself and,
  from index 1 on, \<open>S ! i\<close> translated along one axis; for the two compositions
  \<open>S ! i\<close> translated by the alignment and, from index 1 on, translated again by the
  distribution. Nothing is dropped, added or reordered. The operations that can raise
  return a sequence for every mode of their enumerated set.
\<close>

theorem outputs_correspond_to_inputs:
  "(\<forall>out. align_vertical get_anchor translate S m = Inr out \<longrightarrow>
       length out = length S
       \<and> (\<forall>i<length S. \<exists>dy. out ! i = translate (S ! i) (V2 0 dy)))
   \<and> (\<forall>out. align_horizontal get_anchor translate S m = Inr out \<longrightarrow>
       length out = length S
       \<and> (\<forall>i<length S. \<exists>dx. out ! i = translate (S ! i) (V2 dx 0)))
   \<and> length (distribute_horizontal get_anchor translate S gap) = length S
   \<and> (\<forall>i<length S.
         if i = 0 then distribute_horizontal get_anchor translate S gap ! i = S ! i
         else \<exists>dx. distribute_horizontal get_anchor translate S gap ! i
                = translate (S ! i) (V2 dx 0))
   \<and> length (distribute_vertical get_anchor translate S gap) = length S
   \<and> (\<forall>i<length S.
         if i = 0 then distribute_vertical get_anchor translate S gap ! i = S ! i
         else \<exists>dy. distribute_vertical get_anchor translate S gap ! i
                = translate (S ! i) (V2 0 dy))
   \<and> (\<forall>out. distribute_horizontal_and_align get_anchor translate S gap m = Inr out \<longrightarrow>
       length out = length S
       \<and> (\<forall>i<length S. \<exists>dy.
             if i = 0 then out ! i = translate (S ! i) (V2 0 dy)
             else \<exists>dx. out ! i = translate (translate (S ! i) (V2 0 dy)) (V2 dx 0)))
   \<and> (\<forall>out. distribute_vertical_and_align get_anchor translate S gap m = Inr out \<longrightarrow>
       length out = length S
       \<and> (\<forall>i<length S. \<exists>dx.
             if i = 0 then out ! i = translate (S ! i) (V2 dx 0)
             else \<exists>dy. out ! i = translate (translate (S ! i) (V2 dx 0)) (V2 0 dy)))
   \<and> (m \<in> {''top'', ''center'', ''bottom''} \<longrightarrow>
        (\<exists>out. align_vertical get_anchor translate S m = Inr out)
        \<and> (\<exists>out. distribute_horizontal_and_align get_anchor translate S gap m = Inr out))
   \<and> (m \<in> {''left'', ''center'', ''right''} \<longrightarrow>
        (\<exists>out. align_horizontal get_anchor translate S m = Inr out)
        \<and> (\<exists>out. distribute_vertical_and_align get_anchor translate S gap m = Inr out))"
proof -
  have av: "\<forall>out. align_vertical get_anchor translate S m = Inr out \<longrightarrow>
       length out = length S
       \<and> (\<forall>i<length S. \<exists>dy. out ! i = translate (S ! i) (V2 0 dy))"
    by (intro allI impI) (rule align_vertical_image)
  have ah: "\<forall>out. align_horizontal get_anchor translate S m = Inr out \<longrightarrow>
       length out = length S
       \<and> (\<forall>i<length S. \<exists>dx. out ! i = translate (S ! i) (V2 dx 0))"
    by (intro allI impI) (rule align_horizontal_image)
  have dha: "\<forall>out. distribute_horizontal_and_align get_anchor translate S gap m = Inr out \<longrightarrow>
       length out = length S
       \<and> (\<forall>i<length S. \<exists>dy.
             if i = 0 then out ! i = translate (S ! i) (V2 0 dy)
             else \<exists>dx. out ! i = translate (translate (S ! i) (V2 0 dy)) (V2 dx 0))"
    by (intro allI impI) (rule distribute_horizontal_and_align_image)
  have dva: "\<forall>out. distribute_vertical_and_align get_anchor translate S gap m = Inr out \<longrightarrow>
       length out = length S
       \<and> (\<forall>i<length S. \<exists>dx.
             if i = 0 then out ! i = translate (S ! i) (V2 dx 0)
             else \<exists>dy. out ! i = translate (translate (S ! i) (V2 dx 0)) (V2 0 dy))"
    by (intro allI impI) (rule distribute_vertical_and_align_image)
  have rv: "m \<in> {''top'', ''center'', ''bottom''} \<longrightarrow>
        (\<exists>out. align_vertical get_anchor translate S m = Inr out)
        \<and> (\<exists>out. distribute_horizontal_and_align get_anchor translate S gap m = Inr out)"
  proof
    assume "m \<in> {''top'', ''center'', ''bottom''}"
    from align_vertical_returns [OF this, of get_anchor translate S]
    show "(\<exists>out. align_vertical get_anchor translate S m = Inr out)
        \<and> (\<exists>out. distribute_horizontal_and_align get_anchor translate S gap m = Inr out)"
      by (auto simp: distribute_horizontal_and_align_def)
  qed
  have rh: "m \<in> {''left'', ''center'', ''right''} \<longrightarrow>
        (\<exists>out. align_horizontal get_anchor translate S m = Inr out)
        \<and> (\<exists>out. distribute_vertical_and_align get_anchor translate S gap m = Inr out)"
  proof
    assume "m \<in> {''left'', ''center'', ''right''}"
    from align_horizontal_returns [OF this, of get_anchor translate S]
    show "(\<exists>out. align_horizontal get_anchor translate S m = Inr out)
        \<and> (\<exists>out. distribute_vertical_and_align get_anchor translate S gap m = Inr out)"
      by (auto simp: distribute_vertical_and_align_def)
  qed
  show ?thesis
    by (intro conjI)
      (rule av, rule ah, rule distribute_horizontal_length, rule distribute_horizontal_image,
       rule distribute_vertical_length, rule distribute_vertical_image, rule dha, rule dva,
       rule rv, rule rh)
qed

text \<open>
  C6 on three diagrams, the mode center and the gap 10.
\<close>

theorem outputs_correspond_to_inputs_witness:
  "''center'' \<in> {''top'', ''center'', ''bottom''}
   \<and> align_vertical rect_anchor rect_translate three_rects ''center''
       = Inr [Rect (Num 0) (Num 1) (Num 2) (Num 2) (Num 1) (Num 0) [],
            Rect (Num 4) (Num 6) (Num 8) (Num 3) (Num 1) (Num (- 1)) [],
            Rect (Num (- 4)) (Num (- 3)) (Num (- 2)) (Num 3) (Num 1) (Num (- 1)) []]
   \<and> length [Rect (Num 0) (Num 1) (Num 2) (Num 2) (Num 1) (Num 0) [],
           Rect (Num 4) (Num 6) (Num 8) (Num 3) (Num 1) (Num (- 1)) [],
           Rect (Num (- 4)) (Num (- 3)) (Num (- 2)) (Num 3) (Num 1) (Num (- 1)) []]
       = length three_rects
   \<and> (\<exists>dy. [Rect (Num 0) (Num 1) (Num 2) (Num 2) (Num 1) (Num 0) [],
           Rect (Num 4) (Num 6) (Num 8) (Num 3) (Num 1) (Num (- 1)) [],
           Rect (Num (- 4)) (Num (- 3)) (Num (- 2)) (Num 3) (Num 1) (Num (- 1)) []] ! 2
             = rect_translate (three_rects ! 2) (V2 0 dy))
   \<and> (\<exists>out. distribute_horizontal_and_align rect_anchor rect_translate three_rects (Num 10) ''center''
              = Inr out)
   \<and> (\<exists>dx. distribute_horizontal rect_anchor rect_translate three_rects (Num 10) ! 1
             = rect_translate (three_rects ! 1) (V2 dx 0))"
proof -
  note t = outputs_correspond_to_inputs
    [of rect_anchor rect_translate three_rects "''center''" "Num 10"]
  note ev = align_vertical_three_rects(2)
  have m: "''center'' \<in> {''top'', ''center'', ''bottom''}"
    by simp
  have two: "2 < length three_rects" and one: "1 < length three_rects"
    by (simp_all add: three_rects_def)
  from t have "\<forall>out. align_vertical rect_anchor rect_translate three_rects ''center'' = Inr out \<longrightarrow>
       length out = length three_rects
       \<and> (\<forall>i<length three_rects. \<exists>dy. out ! i = rect_translate (three_rects ! i) (V2 0 dy))"
    by (elim conjE)
  from this [rule_format, OF ev]
  have len: "length [Rect (Num 0) (Num 1) (Num 2) (Num 2) (Num 1) (Num 0) [],
           Rect (Num 4) (Num 6) (Num 8) (Num 3) (Num 1) (Num (- 1)) [],
           Rect (Num (- 4)) (Num (- 3)) (Num (- 2)) (Num 3) (Num 1) (Num (- 1)) []]
       = length three_rects"
    and img: "\<forall>i<length three_rects. \<exists>dy.
        [Rect (Num 0) (Num 1) (Num 2) (Num 2) (Num 1) (Num 0) [],
           Rect (Num 4) (Num 6) (Num 8) (Num 3) (Num 1) (Num (- 1)) [],
           Rect (Num (- 4)) (Num (- 3)) (Num (- 2)) (Num 3) (Num 1) (Num (- 1)) []] ! i
          = rect_translate (three_rects ! i) (V2 0 dy)"
    by (rule conjunct1, rule conjunct2)
  from t have "''center'' \<in> {''top'', ''center'', ''bottom''} \<longrightarrow>
        (\<exists>out. align_vertical rect_anchor rect_translate three_rects ''center'' = Inr out)
        \<and> (\<exists>out. distribute_horizontal_and_align rect_anchor rect_translate three_rects (Num 10) ''center'' = Inr out)"
    by (elim conjE)
  from this [rule_format, OF m, THEN conjunct2]
  have ret: "\<exists>out. distribute_horizontal_and_align rect_anchor rect_translate three_rects (Num 10) ''center''
              = Inr out" .
  from t have "\<forall>i<length three_rects.
         if i = 0 then distribute_horizontal rect_anchor rect_translate three_rects (Num 10) ! i = three_rects ! i
         else \<exists>dx. distribute_horizontal rect_anchor rect_translate three_rects (Num 10) ! i
                = rect_translate (three_rects ! i) (V2 dx 0)"
    by (elim conjE)
  from this [rule_format, OF one]
  have dh: "\<exists>dx. distribute_horizontal rect_anchor rect_translate three_rects (Num 10) ! 1
             = rect_translate (three_rects ! 1) (V2 dx 0)"
    by simp
  from m ev len img [rule_format, OF two] ret dh show ?thesis
    by (intro conjI)
qed

subsection \<open>Compositions and combine-variants\<close>

text \<open>
  C8. For every sequence \<open>S\<close>, gap \<open>g\<close> and valid vertical mode \<open>m\<close>,
  \<open>distribute_horizontal_and_align S g m\<close> is \<open>distribute_horizontal\<close> applied with
  \<open>g\<close> to the sequence that \<open>align_vertical S m\<close> returns, and for every valid horizontal
  mode \<open>m'\<close>, \<open>distribute_vertical_and_align S g m'\<close> is \<open>distribute_vertical\<close>
  applied with \<open>g\<close> to the sequence that \<open>align_horizontal S m'\<close> returns: the two-step
  pipeline and nothing else.
\<close>

theorem align_then_distribute_is_pipeline:
  "(m \<in> {''top'', ''center'', ''bottom''} \<longrightarrow>
      (\<exists>aligned. align_vertical get_anchor translate S m = Inr aligned
         \<and> distribute_horizontal_and_align get_anchor translate S g m
             = Inr (distribute_horizontal get_anchor translate aligned g)))
   \<and> (m' \<in> {''left'', ''center'', ''right''} \<longrightarrow>
      (\<exists>aligned. align_horizontal get_anchor translate S m' = Inr aligned
         \<and> distribute_vertical_and_align get_anchor translate S g m'
             = Inr (distribute_vertical get_anchor translate aligned g)))"
proof (intro conjI impI)
  assume "m \<in> {''top'', ''center'', ''bottom''}"
  from align_vertical_returns [OF this, of get_anchor translate S]
  show "\<exists>aligned. align_vertical get_anchor translate S m = Inr aligned
         \<and> distribute_horizontal_and_align get_anchor translate S g m
             = Inr (distribute_horizontal get_anchor translate aligned g)"
    by (auto simp: distribute_horizontal_and_align_def)
next
  assume "m' \<in> {''left'', ''center'', ''right''}"
  from align_horizontal_returns [OF this, of get_anchor translate S]
  show "\<exists>aligned. align_horizontal get_anchor translate S m' = Inr aligned
         \<and> distribute_vertical_and_align get_anchor translate S g m'
             = Inr (distribute_vertical get_anchor translate aligned g)"
    by (auto simp: distribute_vertical_and_align_def)
qed

text \<open>
  C8 on three diagrams, the gap 10 and the modes top and center.
\<close>

theorem align_then_distribute_is_pipeline_witness:
  "''top'' \<in> {''top'', ''center'', ''bottom''}
   \<and> ''center'' \<in> {''left'', ''center'', ''right''}
   \<and> distribute_horizontal_and_align rect_anchor rect_translate three_rects (Num 10) ''top''
       = Inr (distribute_horizontal rect_anchor rect_translate
               [Rect (Num 0) (Num 1) (Num 2) (Num 2) (Num 1) (Num 0) [],
                Rect (Num 4) (Num 6) (Num 8) (Num 2) (Num 0) (Num (- 2)) [],
                Rect (Num (- 4)) (Num (- 3)) (Num (- 2)) (Num 2) (Num 0) (Num (- 2)) []] (Num 10))
   \<and> distribute_horizontal_and_align rect_anchor rect_translate three_rects (Num 10) ''top''
       = Inr [Rect (Num 0) (Num 1) (Num 2) (Num 2) (Num 1) (Num 0) [],
            Rect (Num 12) (Num 14) (Num 16) (Num 2) (Num 0) (Num (- 2)) [],
            Rect (Num 26) (Num 27) (Num 28) (Num 2) (Num 0) (Num (- 2)) []]
   \<and> distribute_vertical_and_align rect_anchor rect_translate three_rects (Num 10) ''center''
       = Inr (distribute_vertical rect_anchor rect_translate
               [Rect (Num 0) (Num 1) (Num 2) (Num 2) (Num 1) (Num 0) [],
                Rect (Num (- 1)) (Num 1) (Num 3) (Num 6) (Num 4) (Num 2) [],
                Rect (Num 0) (Num 1) (Num 2) (Num 0) (Num (- 2)) (Num (- 4)) []] (Num 10))
   \<and> distribute_vertical_and_align rect_anchor rect_translate three_rects (Num 10) ''center''
       = Inr [Rect (Num 0) (Num 1) (Num 2) (Num 2) (Num 1) (Num 0) [],
            Rect (Num (- 1)) (Num 1) (Num 3) (Num (- 10)) (Num (- 12)) (Num (- 14)) [],
            Rect (Num 0) (Num 1) (Num 2) (Num (- 24)) (Num (- 26)) (Num (- 28)) []]"
proof -
  have mv: "''top'' \<in> {''top'', ''center'', ''bottom''}"
    and mh: "''center'' \<in> {''left'', ''center'', ''right''}"
    by simp_all
  note t = align_then_distribute_is_pipeline
    [of "''top''" rect_anchor rect_translate three_rects "Num 10" "''center''"]
  from t [THEN conjunct1, rule_format, OF mv] obtain aligned
    where "align_vertical rect_anchor rect_translate three_rects ''top'' = Inr aligned"
      and "distribute_horizontal_and_align rect_anchor rect_translate three_rects (Num 10) ''top''
             = Inr (distribute_horizontal rect_anchor rect_translate aligned (Num 10))"
    by blast
  with align_vertical_three_rects(1)
  have h: "distribute_horizontal_and_align rect_anchor rect_translate three_rects (Num 10) ''top''
       = Inr (distribute_horizontal rect_anchor rect_translate
               [Rect (Num 0) (Num 1) (Num 2) (Num 2) (Num 1) (Num 0) [],
                Rect (Num 4) (Num 6) (Num 8) (Num 2) (Num 0) (Num (- 2)) [],
                Rect (Num (- 4)) (Num (- 3)) (Num (- 2)) (Num 2) (Num 0) (Num (- 2)) []] (Num 10))"
    by simp
  from t [THEN conjunct2, rule_format, OF mh] obtain aligned
    where "align_horizontal rect_anchor rect_translate three_rects ''center'' = Inr aligned"
      and "distribute_vertical_and_align rect_anchor rect_translate three_rects (Num 10) ''center''
             = Inr (distribute_vertical rect_anchor rect_translate aligned (Num 10))"
    by blast
  with align_horizontal_three_rects
  have v: "distribute_vertical_and_align rect_anchor rect_translate three_rects (Num 10) ''center''
       = Inr (distribute_vertical rect_anchor rect_translate
               [Rect (Num 0) (Num 1) (Num 2) (Num 2) (Num 1) (Num 0) [],
                Rect (Num (- 1)) (Num 1) (Num 3) (Num 6) (Num 4) (Num 2) [],
                Rect (Num 0) (Num 1) (Num 2) (Num 0) (Num (- 2)) (Num (- 4)) []] (Num 10))"
    by simp
  from mv mh h distribute_horizontal_and_align_three_rects v
    distribute_vertical_and_align_three_rects
  show ?thesis
    by (intro conjI)
qed

text \<open>
  C9. Each combine-variant is \<^verbatim>\<open>diagram_combine\<close> applied to the whole sequence that
  the base operation returns for the same arguments, in the same order, and nothing more;
  where the base operation raises, the variant raises the same error. So, for any way
  \<open>parts\<close> of reading the members back out of a combined diagram
  (\<open>parts (diagram_combine ds) = ds\<close>), the members of the variant's result are the
  base operation's output.
\<close>

theorem combine_variants_wrap_base:
  "(\<forall>out. align_vertical get_anchor translate S m = Inr out \<longrightarrow>
       align_vertical_c get_anchor translate diagram_combine S m = Inr (diagram_combine out))
   \<and> (\<forall>e. align_vertical get_anchor translate S m = Inl e \<longrightarrow>
       align_vertical_c get_anchor translate diagram_combine S m = Inl e)
   \<and> (\<forall>out. align_horizontal get_anchor translate S m = Inr out \<longrightarrow>
       align_horizontal_c get_anchor translate diagram_combine S m = Inr (diagram_combine out))
   \<and> (\<forall>e. align_horizontal get_anchor translate S m = Inl e \<longrightarrow>
       align_horizontal_c get_anchor translate diagram_combine S m = Inl e)
   \<and> distribute_horizontal_c get_anchor translate diagram_combine S g
       = diagram_combine (distribute_horizontal get_anchor translate S g)
   \<and> distribute_vertical_c get_anchor translate diagram_combine S g
       = diagram_combine (distribute_vertical get_anchor translate S g)
   \<and> (\<forall>out. distribute_horizontal_and_align get_anchor translate S g m = Inr out \<longrightarrow>
       distribute_horizontal_and_align_c get_anchor translate diagram_combine S g m
         = Inr (diagram_combine out))
   \<and> (\<forall>e. distribute_horizontal_and_align get_anchor translate S g m = Inl e \<longrightarrow>
       distribute_horizontal_and_align_c get_anchor translate diagram_combine S g m = Inl e)
   \<and> (\<forall>out. distribute_vertical_and_align get_anchor translate S g m = Inr out \<longrightarrow>
       distribute_vertical_and_align_c get_anchor translate diagram_combine S g m
         = Inr (diagram_combine out))
   \<and> (\<forall>e. distribute_vertical_and_align get_anchor translate S g m = Inl e \<longrightarrow>
       distribute_vertical_and_align_c get_anchor translate diagram_combine S g m = Inl e)
   \<and> ((\<forall>ds. parts (diagram_combine ds) = ds) \<longrightarrow>
        (\<forall>out. align_vertical get_anchor translate S m = Inr out \<longrightarrow>
           (\<exists>c. align_vertical_c get_anchor translate diagram_combine S m = Inr c
              \<and> parts c = out))
        \<and> (\<forall>out. align_horizontal get_anchor translate S m = Inr out \<longrightarrow>
           (\<exists>c. align_horizontal_c get_anchor translate diagram_combine S m = Inr c
              \<and> parts c = out))
        \<and> parts (distribute_horizontal_c get_anchor translate diagram_combine S g)
            = distribute_horizontal get_anchor translate S g
        \<and> parts (distribute_vertical_c get_anchor translate diagram_combine S g)
            = distribute_vertical get_anchor translate S g
        \<and> (\<forall>out. distribute_horizontal_and_align get_anchor translate S g m = Inr out \<longrightarrow>
           (\<exists>c. distribute_horizontal_and_align_c get_anchor translate diagram_combine S g m
                  = Inr c
              \<and> parts c = out))
        \<and> (\<forall>out. distribute_vertical_and_align get_anchor translate S g m = Inr out \<longrightarrow>
           (\<exists>c. distribute_vertical_and_align_c get_anchor translate diagram_combine S g m
                  = Inr c
              \<and> parts c = out)))"
  by (simp add: align_vertical_c_def align_horizontal_c_def distribute_horizontal_c_def
      distribute_vertical_c_def distribute_horizontal_and_align_c_def
      distribute_vertical_and_align_c_def)

text \<open>
  C9 on three diagrams, with the combination of the concrete diagram type, which keeps
  its members.
\<close>

theorem combine_variants_wrap_base_witness:
  "(\<forall>ds. members (rect_combine ds) = ds)
   \<and> align_vertical rect_anchor rect_translate three_rects ''top''
       = Inr [Rect (Num 0) (Num 1) (Num 2) (Num 2) (Num 1) (Num 0) [],
            Rect (Num 4) (Num 6) (Num 8) (Num 2) (Num 0) (Num (- 2)) [],
            Rect (Num (- 4)) (Num (- 3)) (Num (- 2)) (Num 2) (Num 0) (Num (- 2)) []]
   \<and> align_vertical_c rect_anchor rect_translate rect_combine three_rects ''top''
       = Inr (Rect (Num (- 4)) (Num 2) (Num 8) (Num 2) (Num 0) (Num (- 2))
              [Rect (Num 0) (Num 1) (Num 2) (Num 2) (Num 1) (Num 0) [],
               Rect (Num 4) (Num 6) (Num 8) (Num 2) (Num 0) (Num (- 2)) [],
               Rect (Num (- 4)) (Num (- 3)) (Num (- 2)) (Num 2) (Num 0) (Num (- 2)) []])
   \<and> (\<exists>c. align_vertical_c rect_anchor rect_translate rect_combine three_rects ''top'' = Inr c
          \<and> members c = [Rect (Num 0) (Num 1) (Num 2) (Num 2) (Num 1) (Num 0) [],
                       Rect (Num 4) (Num 6) (Num 8) (Num 2) (Num 0) (Num (- 2)) [],
                       Rect (Num (- 4)) (Num (- 3)) (Num (- 2)) (Num 2) (Num 0) (Num (- 2)) []])
   \<and> align_vertical rect_anchor rect_translate three_rects ''diagonal''
       = Inl (Error ''Unknown vertical alignment : diagonal'')
   \<and> align_vertical_c rect_anchor rect_translate rect_combine three_rects ''diagonal''
       = Inl (Error ''Unknown vertical alignment : diagonal'')"
proof -
  have mem: "\<forall>ds. members (rect_combine ds) = ds"
    by (simp add: members_rect_combine)
  note ev = align_vertical_three_rects(1)
  have bad: "align_vertical rect_anchor rect_translate three_rects ''diagonal''
       = Inl (Error ''Unknown vertical alignment : diagonal'')"
    by (simp add: align_vertical_def three_rects_def)
  note t = combine_variants_wrap_base
    [of rect_anchor rect_translate three_rects "''top''" rect_combine "Num 10" members]
  note u = combine_variants_wrap_base
    [of rect_anchor rect_translate three_rects "''diagonal''" rect_combine "Num 10" members]
  from t [THEN conjunct1, rule_format, OF ev]
  have c: "align_vertical_c rect_anchor rect_translate rect_combine three_rects ''top''
       = Inr (Rect (Num (- 4)) (Num 2) (Num 8) (Num 2) (Num 0) (Num (- 2))
              [Rect (Num 0) (Num 1) (Num 2) (Num 2) (Num 1) (Num 0) [],
               Rect (Num 4) (Num 6) (Num 8) (Num 2) (Num 0) (Num (- 2)) [],
               Rect (Num (- 4)) (Num (- 3)) (Num (- 2)) (Num 2) (Num 0) (Num (- 2)) []])"
    by (simp add: js_eval)
  from t have "(\<forall>ds. members (rect_combine ds) = ds) \<longrightarrow>
        (\<forall>out. align_vertical rect_anchor rect_translate three_rects ''top'' = Inr out \<longrightarrow>
           (\<exists>c. align_vertical_c rect_anchor rect_translate rect_combine three_rects ''top'' = Inr c
              \<and> members c = out))"
    by blast
  from this [rule_format, OF members_rect_combine ev]
  have p: "\<exists>c. align_vertical_c rect_anchor rect_translate rect_combine three_rects ''top'' = Inr c
          \<and> members c = [Rect (Num 0) (Num 1) (Num 2) (Num 2) (Num 1) (Num 0) [],
                       Rect (Num 4) (Num 6) (Num 8) (Num 2) (Num 0) (Num (- 2)) [],
                       Rect (Num (- 4)) (Num (- 3)) (Num (- 2)) (Num 2) (Num 0) (Num (- 2)) []]" .
  from u [THEN conjunct2, THEN conjunct1, rule_format, OF bad]
  have e: "align_vertical_c rect_anchor rect_translate rect_combine three_rects ''diagonal''
       = Inl (Error ''Unknown vertical alignment : diagonal'')" .
  from mem ev c p bad e show ?thesis
    by (intro conjI)
qed

end
